theory Spec2Isabelle
  imports Complex_Main
begin

section \<open>Values of the JavaScript runtime\<close>

text \<open>
  The three validators of \<^verbatim>\<open>src/utils/functions.js\<close> are embedded as HOL functions.
  A JavaScript number is a rational or \<open>NaN\<close> (which also stands for \<open>undefined\<close> once it
  has been converted to a number); arithmetic is exact, so rounding of doubles is not
  modelled. A \<open>Date\<close> object is its time value: whole milliseconds since the epoch, or
  \<open>Invalid_Date\<close> when the time value is NaN. The range limit of time values
  (8.64e15 ms either side of the epoch) is not modelled.
\<close>

datatype jsnum = NaN | Num rat

datatype jsdate = Invalid_Date | Date_ms int

datatype error = Error string | TypeError | RangeError

fun js_sub :: "jsnum \<Rightarrow> jsnum \<Rightarrow> jsnum" where
  "js_sub (Num a) (Num b) = Num (a - b)"
| "js_sub _ _ = NaN"

fun js_div :: "jsnum \<Rightarrow> jsnum \<Rightarrow> jsnum" where
  "js_div (Num a) (Num b) = (if b = 0 then NaN else Num (a / b))"
| "js_div _ _ = NaN"

text \<open>Relational operators on dates compare time values; a comparison with NaN is false.\<close>

fun date_lt :: "jsdate \<Rightarrow> jsdate \<Rightarrow> bool" where
  "date_lt (Date_ms a) (Date_ms b) = (a < b)"
| "date_lt _ _ = False"

fun time_eq :: "jsdate \<Rightarrow> jsdate \<Rightarrow> bool" where
  "time_eq (Date_ms a) (Date_ms b) = (a = b)"
| "time_eq _ _ = False"

text \<open>An EXIF tag as the reader returns it; only \<open>description\<close> is read by the code.\<close>

record tag =
  description :: "string option"

type_synonym tags = "string \<Rightarrow> tag option"

type_synonym buffer = "nat list"

text \<open>
  Library and runtime functions the source calls but does not define are taken as
  parameters, collected in one record: the clock (\<open>new Date()\<close>), \<open>ExifReader.load\<close>
  (\<open>None\<close> when it throws), \<open>new Date(string)\<close>, \<open>parseInt\<close> (of a possibly undefined
  description), \<open>Number\<close>, the local-time constructor \<open>new Date(y, m, d, h, min)\<close>, the
  local calendar fields of a time value, \<open>toISOString\<close>, and the two number
  formatters used in messages.
\<close>

record host =
  now :: int
  ExifReader_load :: "buffer \<Rightarrow> tags option"
  Date_parse :: "string \<Rightarrow> jsdate"
  parseInt :: "string option \<Rightarrow> jsnum"
  Number :: "string \<Rightarrow> jsnum"
  Date_local :: "jsnum \<Rightarrow> jsnum \<Rightarrow> jsnum \<Rightarrow> jsnum \<Rightarrow> jsnum \<Rightarrow> jsdate"
  getFullYear :: "int \<Rightarrow> int"
  getMonth :: "int \<Rightarrow> int"
  getDate :: "int \<Rightarrow> int"
  toISOString :: "int \<Rightarrow> string"
  toFixed :: "rat \<Rightarrow> nat \<Rightarrow> string"
  Number_toString :: "rat \<Rightarrow> string"

section \<open>Strings\<close>

definition startsWith :: "string \<Rightarrow> string \<Rightarrow> bool" where
  "startsWith s p = (take (length p) s = p)"

fun join :: "string \<Rightarrow> string list \<Rightarrow> string" where
  "join sep [] = []"
| "join sep [x] = x"
| "join sep (x # y # ys) = x @ sep @ join sep (y # ys)"

text \<open>\<open>s.split(c)\<close> for a one-character separator: never empty, one more piece than
  there are separators.\<close>

fun split_on :: "char \<Rightarrow> string \<Rightarrow> string list" where
  "split_on c [] = [[]]"
| "split_on c (x # xs) =
     (if x = c then [] # split_on c xs
      else (case split_on c xs of [] \<Rightarrow> [[x]] | y # ys \<Rightarrow> (x # y) # ys))"

text \<open>Decimal text of an integer, as a template literal prints it.\<close>

definition digit_char :: "nat \<Rightarrow> char" where
  "digit_char d = ''0123456789'' ! (d mod 10)"

fun string_of_nat :: "nat \<Rightarrow> string" where
  "string_of_nat n =
     (if n < 10 then [digit_char n] else string_of_nat (n div 10) @ [digit_char (n mod 10)])"

declare string_of_nat.simps [simp del]

definition string_of_int :: "int \<Rightarrow> string" where
  "string_of_int i = (if i < 0 then CHR ''-'' # string_of_nat (nat (- i)) else string_of_nat (nat i))"

section \<open>Configuration\<close>

record ValidationConfig =
  maxFileSizeInMB :: rat
  minImageWidth :: rat
  minImageHeight :: rat
  timeBufferMinutes :: int
  allowedMimeTypes :: "string list"
  requireOriginalPhoto :: bool
  minQualityScore :: rat

definition DEFAULT_VALIDATION_CONFIG :: ValidationConfig where
  "DEFAULT_VALIDATION_CONFIG =
     \<lparr> maxFileSizeInMB = 10,
       minImageWidth = 800,
       minImageHeight = 600,
       timeBufferMinutes = 60,
       allowedMimeTypes = [''image/jpeg'', ''image/png'', ''IMG_'', ''image/heic'', ''image/heif''],
       requireOriginalPhoto = False,
       minQualityScore = 1 / 2 \<rparr>"

text \<open>A default parameter \<open>config = DEFAULT_VALIDATION_CONFIG\<close>: the default stands in
  when the argument is omitted.\<close>

definition config_or_default :: "ValidationConfig option \<Rightarrow> ValidationConfig" where
  "config_or_default config = (case config of None \<Rightarrow> DEFAULT_VALIDATION_CONFIG | Some c \<Rightarrow> c)"

section \<open>extractFileMetadata\<close>

text \<open>
  The uploaded file. A field is \<open>None\<close> when the property is absent. \<open>size\<close> is a
  byte count, \<open>data\<close> a Buffer (an object, so truthy whenever present, even when empty),
  \<open>lastModifiedDate\<close> a Date object.
\<close>

record RawFile =
  file_name :: "string option"
  file_mimetype :: "string option"
  file_size :: "nat option"
  file_data :: "buffer option"
  file_lastModifiedDate :: "jsdate option"

record FileMetadata =
  originalName :: string
  mimetype :: string
  size_bytes :: nat
  sizeInMB :: rat
  dimensions :: "(nat \<times> nat) option"
  qualityScore :: "jsnum option"
  possibleCreationSources :: "string list"
  createdAt :: "jsdate option"
  validationErrors :: "string list"
  validationWarnings :: "string list"
  cameraMake :: "string option"
  cameraModel :: "string option"
  iso :: "string option"

text \<open>Truthiness of the required properties: \<open>!x\<close> holds for an absent property, for
  the empty string and for zero.\<close>

definition falsy_string :: "string option \<Rightarrow> bool" where
  "falsy_string s = (case s of None \<Rightarrow> True | Some t \<Rightarrow> t = [])"

definition falsy_size :: "nat option \<Rightarrow> bool" where
  "falsy_size n = (case n of None \<Rightarrow> True | Some k \<Rightarrow> k = 0)"

definition falsy_data :: "buffer option \<Rightarrow> bool" where
  "falsy_data d = (case d of None \<Rightarrow> True | Some b \<Rightarrow> False)"

definition initialMetadata :: "string \<Rightarrow> string \<Rightarrow> nat \<Rightarrow> FileMetadata" where
  "initialMetadata nm mt sz =
     \<lparr> originalName = nm,
       mimetype = mt,
       size_bytes = sz,
       sizeInMB = of_nat sz / (1024 * 1024),
       dimensions = None,
       qualityScore = None,
       possibleCreationSources = [],
       createdAt = None,
       validationErrors = [],
       validationWarnings = [],
       cameraMake = None,
       cameraModel = None,
       iso = None \<rparr>"

definition checkSize :: "host \<Rightarrow> ValidationConfig \<Rightarrow> FileMetadata \<Rightarrow> FileMetadata" where
  "checkSize h config m =
     (if sizeInMB m > maxFileSizeInMB config
      then m\<lparr>validationErrors := validationErrors m @
             [''File size ('' @ toFixed h (sizeInMB m) 2 @ ''MB) exceeds maximum allowed size of ''
                @ Number_toString h (maxFileSizeInMB config) @ ''MB'']\<rparr>
      else m)"

definition checkMimeType :: "ValidationConfig \<Rightarrow> FileMetadata \<Rightarrow> FileMetadata" where
  "checkMimeType config m =
     (if mimetype m \<notin> set (allowedMimeTypes config)
      then m\<lparr>validationErrors := validationErrors m @
             [''File type '' @ mimetype m @ '' is not allowed. Allowed types: ''
                @ join '', '' (allowedMimeTypes config)]\<rparr>
      else m)"

definition dateFields :: "string list" where
  "dateFields = [''DateTimeOriginal'', ''CreateDate'', ''ModifyDate'', ''DateTime'']"

text \<open>The two nested tests of the loop body: the tag and its description are truthy,
  and the description parses to a valid date. The result is the parsed time value.\<close>

definition fieldDate :: "host \<Rightarrow> tags \<Rightarrow> string \<Rightarrow> int option" where
  "fieldDate h tgs field =
     (case tgs field of
        None \<Rightarrow> None
      | Some t \<Rightarrow>
          (case description t of
             None \<Rightarrow> None
           | Some s \<Rightarrow>
               (if s = [] then None
                else (case Date_parse h s of Invalid_Date \<Rightarrow> None | Date_ms d \<Rightarrow> Some d))))"

definition setQuality :: "host \<Rightarrow> tags \<Rightarrow> FileMetadata \<Rightarrow> FileMetadata" where
  "setQuality h tgs m =
     (case tgs ''Quality'' of
        None \<Rightarrow> m
      | Some q \<Rightarrow> m\<lparr>qualityScore := Some (js_div (parseInt h (description q)) (Num 100))\<rparr>)"

text \<open>The \<open>for (const field of dateFields)\<close> loop; \<open>break\<close> is the branch without a
  recursive call.\<close>

fun dateFieldLoop :: "host \<Rightarrow> tags \<Rightarrow> string list \<Rightarrow> FileMetadata \<Rightarrow> FileMetadata" where
  "dateFieldLoop h tgs [] m = m"
| "dateFieldLoop h tgs (field # rest) m =
     (case fieldDate h tgs field of
        None \<Rightarrow> dateFieldLoop h tgs rest m
      | Some d \<Rightarrow>
          setQuality h tgs
            (m\<lparr>createdAt := Some (Date_ms d),
               possibleCreationSources := possibleCreationSources m @ [''EXIF'']\<rparr>))"

definition tagDescription :: "tags \<Rightarrow> string \<Rightarrow> string option" where
  "tagDescription tgs k = (case tgs k of None \<Rightarrow> None | Some t \<Rightarrow> description t)"

definition copyCameraTags :: "tags \<Rightarrow> FileMetadata \<Rightarrow> FileMetadata" where
  "copyCameraTags tgs m =
     m\<lparr>cameraMake := tagDescription tgs ''Make'',
       cameraModel := tagDescription tgs ''Model'',
       iso := tagDescription tgs ''ISO''\<rparr>"

text \<open>The block guarded by \<open>file.mimetype.startsWith('image/')\<close>, with its inner
  \<open>try\<close>/\<open>catch\<close> around the reader.\<close>

definition exifStep :: "host \<Rightarrow> buffer \<Rightarrow> FileMetadata \<Rightarrow> FileMetadata" where
  "exifStep h dat m =
     (if startsWith (mimetype m) ''image/''
      then (case ExifReader_load h dat of
              None \<Rightarrow> m\<lparr>validationWarnings := validationWarnings m @ [''No EXIF data found'']\<rparr>
            | Some tgs \<Rightarrow> copyCameraTags tgs (dateFieldLoop h tgs dateFields m))
      else m)"

definition fileSystemStep :: "jsdate option \<Rightarrow> FileMetadata \<Rightarrow> FileMetadata" where
  "fileSystemStep lmd m =
     (case (createdAt m, lmd) of
        (None, Some d) \<Rightarrow>
          m\<lparr>createdAt := Some d,
            possibleCreationSources := possibleCreationSources m @ [''lastModifiedDate'']\<rparr>
      | _ \<Rightarrow> m)"

definition currentTimeStep :: "host \<Rightarrow> ValidationConfig \<Rightarrow> FileMetadata \<Rightarrow> FileMetadata" where
  "currentTimeStep h config m =
     (case createdAt m of
        Some d \<Rightarrow> m
      | None \<Rightarrow>
          (let m1 = m\<lparr>createdAt := Some (Date_ms (now h)),
                      possibleCreationSources := possibleCreationSources m @ [''current'']\<rparr>
           in if requireOriginalPhoto config
              then m1\<lparr>validationErrors := validationErrors m1 @
                     [''Could not verify original photo creation time. Please upload original photos directly from your camera/phone.'']\<rparr>
              else m1\<lparr>validationWarnings := validationWarnings m1 @
                     [''Using current time as creation time - this may not reflect when the photo was actually taken'']\<rparr>))"

text \<open>The metadata after the two checks that come before any date is looked for.\<close>

definition checkedMetadata :: "host \<Rightarrow> ValidationConfig \<Rightarrow> string \<Rightarrow> string \<Rightarrow> nat \<Rightarrow> FileMetadata" where
  "checkedMetadata h config nm mt sz = checkMimeType config (checkSize h config (initialMetadata nm mt sz))"

text \<open>
  The whole function. The two guards at the top throw; with the typed inputs above no
  statement of the outer \<open>try\<close> block throws (the reader's exception is caught by the
  inner \<open>catch\<close>), so the outer \<open>catch\<close> that rethrows has no branch here.
\<close>

definition extractFileMetadata ::
  "host \<Rightarrow> RawFile option \<Rightarrow> ValidationConfig option \<Rightarrow> error + FileMetadata" where
  "extractFileMetadata h file config =
     (case file of
        None \<Rightarrow> Inl (Error ''Missing required parameter - file'')
      | Some f \<Rightarrow>
          (if falsy_string (file_name f) \<or> falsy_string (file_mimetype f)
              \<or> falsy_size (file_size f) \<or> falsy_data (file_data f)
           then Inl (Error ''Invalid file object - missing required properties'')
           else
             (let c = config_or_default config;
                  m = checkedMetadata h c (the (file_name f)) (the (file_mimetype f)) (the (file_size f))
              in Inr (currentTimeStep h c
                        (fileSystemStep (file_lastModifiedDate f)
                           (exifStep h (the (file_data f)) m))))))"

section \<open>validateFileCreationTime\<close>

record TimeValidationDetails =
  fileCreatedAt :: string
  eventStart :: string
  eventEnd :: string
  creationSource :: "string option"
  timeOffset :: "int option"
  message :: string

record TimeValidationResult =
  isValid :: bool
  resultCreatedAt :: jsdate
  details :: TimeValidationDetails

text \<open>\<open>possibleCreationSources[0]\<close>: \<open>undefined\<close> (here \<open>None\<close>) for an empty array.\<close>

definition firstSource :: "string list \<Rightarrow> string option" where
  "firstSource xs = (case xs of [] \<Rightarrow> None | x # _ \<Rightarrow> Some x)"

definition show_source :: "string option \<Rightarrow> string" where
  "show_source s = (case s of None \<Rightarrow> ''undefined'' | Some x \<Rightarrow> x)"

text \<open>
  \<open>toISOString\<close> throws a TypeError on \<open>null\<close> and a RangeError on an invalid date; the
  three calls in the returned object are the only statements that can throw, so with a
  missing or invalid date the call ends in that error whatever was computed before.
  With three valid dates every comparison and subtraction is on integers.
\<close>

definition validateFileCreationTime ::
  "host \<Rightarrow> FileMetadata \<Rightarrow> jsdate \<Rightarrow> jsdate \<Rightarrow> ValidationConfig option
     \<Rightarrow> error + TimeValidationResult" where
  "validateFileCreationTime h fileMetadata evStart evEnd config =
     (case createdAt fileMetadata of
        None \<Rightarrow> Inl TypeError
      | Some Invalid_Date \<Rightarrow> Inl RangeError
      | Some (Date_ms created) \<Rightarrow>
          (case (evStart, evEnd) of
             (Date_ms es, Date_ms ee) \<Rightarrow>
               (let c = config_or_default config;
                    source = firstSource (possibleCreationSources fileMetadata);
                    bufferedEventStart = es - timeBufferMinutes c * 60 * 1000;
                    bufferedEventEnd = ee + timeBufferMinutes c * 60 * 1000;
                    valid = (created \<ge> bufferedEventStart \<and> created \<le> bufferedEventEnd);
                    offset =
                      (if \<not> valid
                       then (if created < bufferedEventStart
                             then Some ((bufferedEventStart - created) div (1000 * 60))
                             else Some ((created - bufferedEventEnd) div (1000 * 60)))
                       else None)
                in Inr \<lparr> isValid = valid,
                         resultCreatedAt = Date_ms created,
                         details =
                           \<lparr> fileCreatedAt = toISOString h created,
                             eventStart = toISOString h es,
                             eventEnd = toISOString h ee,
                             creationSource = source,
                             timeOffset = offset,
                             message =
                               (if valid
                                then ''File creation time is valid (detected via '' @ show_source source @ '')''
                                else ''File was created ''
                                       @ (case offset of None \<Rightarrow> ''null'' | Some n \<Rightarrow> string_of_int n)
                                       @ '' minutes ''
                                       @ (if created < bufferedEventStart then ''before'' else ''after'')
                                       @ '' the allowed time window'') \<rparr> \<rparr>)
           | _ \<Rightarrow> Inl RangeError))"

section \<open>validateEventTimes\<close>

record EventTimeValidation =
  eventIsValid :: bool
  errors :: "string list"

text \<open>Array destructuring followed by a conversion to number: a missing element is
  \<open>undefined\<close>, which every later use turns into NaN.\<close>

definition element :: "jsnum list \<Rightarrow> nat \<Rightarrow> jsnum" where
  "element xs i = (if i < length xs then xs ! i else NaN)"

definition numbers :: "host \<Rightarrow> char \<Rightarrow> string \<Rightarrow> jsnum list" where
  "numbers h sep s = map (Number h) (split_on sep s)"

definition combineDateAndTime :: "host \<Rightarrow> string \<Rightarrow> string \<Rightarrow> jsdate" where
  "combineDateAndTime h dateStr timeStr =
     (let ymd = numbers h CHR ''-'' dateStr;
          hm = numbers h CHR '':'' timeStr
      in Date_local h (element ymd 0) (js_sub (element ymd 1) (Num 1)) (element ymd 2)
           (element hm 0) (element hm 1))"

text \<open>\<open>new Date(year, month - 1, day)\<close>: the omitted hours and minutes are zero.\<close>

definition dateOnly :: "host \<Rightarrow> string \<Rightarrow> jsdate" where
  "dateOnly h dateStr =
     (let ymd = numbers h CHR ''-'' dateStr
      in Date_local h (element ymd 0) (js_sub (element ymd 1) (Num 1)) (element ymd 2) (Num 0) (Num 0))"

definition todayDate :: "host \<Rightarrow> jsdate" where
  "todayDate h =
     Date_local h (Num (of_int (getFullYear h (now h)))) (Num (of_int (getMonth h (now h))))
       (Num (of_int (getDate h (now h)))) (Num 0) (Num 0)"

definition fail :: "string \<Rightarrow> EventTimeValidation \<Rightarrow> EventTimeValidation" where
  "fail msg v = v\<lparr>eventIsValid := False, errors := errors v @ [msg]\<rparr>"

definition validateEventTimes :: "host \<Rightarrow> string \<Rightarrow> string \<Rightarrow> string \<Rightarrow> string \<Rightarrow> EventTimeValidation" where
  "validateEventTimes h startDate endDate startTime endTime =
     (let start = dateOnly h startDate;
          end_date = dateOnly h endDate;
          startTimeObj = combineDateAndTime h startDate startTime;
          endTimeObj = combineDateAndTime h endDate endTime;
          today = todayDate h;
          v0 = \<lparr> eventIsValid = True, errors = [] \<rparr>;
          v1 = (if date_lt start today then fail ''Start date cannot be in the past'' v0 else v0);
          v2 = (if date_lt end_date start then fail ''End date cannot be before start date'' v1 else v1);
          v3 = (if time_eq start today
                then (if date_lt startTimeObj (Date_ms (now h))
                      then fail ''Start time cannot be in the past for today's date. You can create 1 mins ahead of your current time if the event has started already!!'' v2
                      else v2)
                else v2);
          v4 = (if startDate = endDate \<and> date_lt endTimeObj startTimeObj
                then fail ''End time cannot be before start time on the same day'' v3 else v3)
      in v4)"

section \<open>A host for running the functions\<close>

text \<open>
  A concrete host on which the functions are evaluated in the examples below: local
  time is UTC, the proleptic Gregorian calendar is computed by the usual day-count
  formulas, \<open>Number\<close> and \<open>parseInt\<close> read ASCII decimal digits (\<open>Number\<close> of the empty
  string is 0; every other text gives NaN here), \<open>new Date(string)\<close> reads the fixed-width
  form \<open>YYYY-MM-DDTHH:MM:SS\<close> as local time, and the reader finds no tags in any buffer.
  The general theorems hold for every host; this one only supplies worked examples.
\<close>

definition days_from_civil :: "int \<Rightarrow> int \<Rightarrow> int \<Rightarrow> int" where
  "days_from_civil y m d =
     (let y1 = (if m \<le> 2 then y - 1 else y);
          era = y1 div 400;
          yoe = y1 - era * 400;
          mp = (m + 9) mod 12;
          doy = (153 * mp + 2) div 5 + d - 1;
          doe = yoe * 365 + yoe div 4 - yoe div 100 + doy
      in era * 146097 + doe - 719468)"

definition civil_from_days :: "int \<Rightarrow> int \<times> int \<times> int" where
  "civil_from_days z =
     (let z1 = z + 719468;
          era = z1 div 146097;
          doe = z1 - era * 146097;
          yoe = (doe - doe div 1460 + doe div 36524 - doe div 146096) div 365;
          doy = doe - (365 * yoe + yoe div 4 - yoe div 100);
          mp = (5 * doy + 2) div 153;
          d = doy - (153 * mp + 2) div 5 + 1;
          m = (if mp < 10 then mp + 3 else mp - 9);
          y = yoe + era * 400
      in (if m \<le> 2 then y + 1 else y, m, d))"

definition is_digit :: "char \<Rightarrow> bool" where
  "is_digit c = (c \<in> set ''0123456789'')"

definition digit_val :: "char \<Rightarrow> nat" where
  "digit_val c = of_char c - 48"

definition nat_of_digits :: "string \<Rightarrow> nat" where
  "nat_of_digits s = foldl (\<lambda>acc c. 10 * acc + digit_val c) 0 s"

definition utc_Number :: "string \<Rightarrow> jsnum" where
  "utc_Number s = (if list_all is_digit s then Num (of_nat (nat_of_digits s)) else NaN)"

definition utc_parseInt :: "string option \<Rightarrow> jsnum" where
  "utc_parseInt s =
     (case s of
        None \<Rightarrow> NaN
      | Some t \<Rightarrow> (let ds = takeWhile is_digit t
                   in if ds = [] then NaN else Num (of_nat (nat_of_digits ds))))"

fun utc_Date_local :: "jsnum \<Rightarrow> jsnum \<Rightarrow> jsnum \<Rightarrow> jsnum \<Rightarrow> jsnum \<Rightarrow> jsdate" where
  "utc_Date_local (Num y) (Num m) (Num d) (Num hh) (Num mi) =
     (let y0 = \<lfloor>y\<rfloor>;
          yr = (if 0 \<le> y0 \<and> y0 \<le> 99 then 1900 + y0 else y0);
          ym = yr + \<lfloor>m\<rfloor> div 12;
          mn = \<lfloor>m\<rfloor> mod 12
      in Date_ms ((days_from_civil ym (mn + 1) 1 + (\<lfloor>d\<rfloor> - 1)) * 86400000
                    + \<lfloor>hh\<rfloor> * 3600000 + \<lfloor>mi\<rfloor> * 60000))"
| "utc_Date_local _ _ _ _ _ = Invalid_Date"

definition utc_Date_parse :: "string \<Rightarrow> jsdate" where
  "utc_Date_parse s =
     (if length s = 19 \<and> s ! 4 = CHR ''-'' \<and> s ! 7 = CHR ''-'' \<and> s ! 10 = CHR ''T''
          \<and> s ! 13 = CHR '':'' \<and> s ! 16 = CHR '':''
          \<and> list_all is_digit (take 4 s @ take 2 (drop 5 s) @ take 2 (drop 8 s)
               @ take 2 (drop 11 s) @ take 2 (drop 14 s) @ take 2 (drop 17 s))
      then Date_ms
             (days_from_civil (int (nat_of_digits (take 4 s))) (int (nat_of_digits (take 2 (drop 5 s))))
                (int (nat_of_digits (take 2 (drop 8 s)))) * 86400000
              + int (nat_of_digits (take 2 (drop 11 s))) * 3600000
              + int (nat_of_digits (take 2 (drop 14 s))) * 60000
              + int (nat_of_digits (take 2 (drop 17 s))) * 1000)
      else Invalid_Date)"

definition pad :: "nat \<Rightarrow> string \<Rightarrow> string" where
  "pad n s = replicate (n - length s) CHR ''0'' @ s"

definition utc_toISOString :: "int \<Rightarrow> string" where
  "utc_toISOString t =
     (let (y, m, d) = civil_from_days (t div 86400000);
          r = t mod 86400000
      in pad 4 (string_of_int y) @ ''-'' @ pad 2 (string_of_int m) @ ''-'' @ pad 2 (string_of_int d)
         @ ''T'' @ pad 2 (string_of_int (r div 3600000)) @ '':''
         @ pad 2 (string_of_int (r mod 3600000 div 60000)) @ '':''
         @ pad 2 (string_of_int (r mod 60000 div 1000)) @ ''.''
         @ pad 3 (string_of_int (r mod 1000)) @ ''Z'')"

definition utc_toFixed :: "rat \<Rightarrow> nat \<Rightarrow> string" where
  "utc_toFixed x k =
     (let n = \<lfloor>x * 10 ^ k + 1 / 2\<rfloor>
      in string_of_int (n div 10 ^ k)
         @ (if k = 0 then [] else ''.'' @ pad k (string_of_int (n mod 10 ^ k))))"

fun fraction_digits :: "nat \<Rightarrow> rat \<Rightarrow> string" where
  "fraction_digits 0 r = []"
| "fraction_digits (Suc k) r =
     (if r = 0 then []
      else string_of_int \<lfloor>r * 10\<rfloor> @ fraction_digits k (r * 10 - of_int \<lfloor>r * 10\<rfloor>))"

definition utc_Number_toString :: "rat \<Rightarrow> string" where
  "utc_Number_toString x =
     (let a = \<bar>x\<bar>; f = a - of_int \<lfloor>a\<rfloor>
      in (if x < 0 then ''-'' else []) @ string_of_int \<lfloor>a\<rfloor>
         @ (if f = 0 then [] else ''.'' @ fraction_digits 20 f))"

definition utc_host :: "int \<Rightarrow> host" where
  "utc_host t =
     \<lparr> now = t,
       ExifReader_load = (\<lambda>b. Some (\<lambda>k. None)),
       Date_parse = utc_Date_parse,
       parseInt = utc_parseInt,
       Number = utc_Number,
       Date_local = utc_Date_local,
       getFullYear = (\<lambda>t. fst (civil_from_days (t div 86400000))),
       getMonth = (\<lambda>t. fst (snd (civil_from_days (t div 86400000))) - 1),
       getDate = (\<lambda>t. snd (snd (civil_from_days (t div 86400000)))),
       toISOString = utc_toISOString,
       toFixed = utc_toFixed,
       Number_toString = utc_Number_toString \<rparr>"

section \<open>Inputs for the worked examples\<close>

definition photo :: "string \<Rightarrow> nat \<Rightarrow> jsdate option \<Rightarrow> RawFile" where
  "photo mt sz lmd =
     \<lparr> file_name = Some ''IMG_0001.jpg'',
       file_mimetype = Some mt,
       file_size = Some sz,
       file_data = Some [255, 216],
       file_lastModifiedDate = lmd \<rparr>"

text \<open>The host above, with a reader that returns the given tags, and with a reader that
  throws.\<close>

definition exif_host :: "int \<Rightarrow> (string \<times> string) list \<Rightarrow> host" where
  "exif_host t kvs =
     (utc_host t)\<lparr>ExifReader_load :=
        (\<lambda>b. Some (\<lambda>k. map_option (\<lambda>s. \<lparr> description = Some s \<rparr>) (map_of kvs k)))\<rparr>"

definition unreadable_host :: "int \<Rightarrow> host" where
  "unreadable_host t = (utc_host t)\<lparr>ExifReader_load := (\<lambda>b. None)\<rparr>"

definition metadata_at :: "int \<Rightarrow> FileMetadata" where
  "metadata_at t =
     (initialMetadata ''IMG_0001.jpg'' ''image/jpeg'' 2048)
       \<lparr>createdAt := Some (Date_ms t), possibleCreationSources := [''EXIF'']\<rparr>"

section \<open>Basic facts\<close>

lemma config_or_default_simps:
  "config_or_default None = DEFAULT_VALIDATION_CONFIG"
  "config_or_default (Some c) = c"
  by (simp_all add: config_or_default_def)

subsection \<open>The date-field loop and the steps of the extractor\<close>

lemma dateFieldLoop_none:
  "\<forall>g\<in>set fs. fieldDate h tgs g = None \<Longrightarrow> dateFieldLoop h tgs fs m = m"
  by (induction fs) simp_all

lemma dateFieldLoop_first:
  assumes "\<forall>g\<in>set pre. fieldDate h tgs g = None" and "fieldDate h tgs field = Some d"
  shows "dateFieldLoop h tgs (pre @ field # post) m =
           setQuality h tgs (m\<lparr>createdAt := Some (Date_ms d),
              possibleCreationSources := possibleCreationSources m @ [''EXIF'']\<rparr>)"
  using assms by (induction pre) simp_all

lemma dateFieldLoop_cases:
  "dateFieldLoop h tgs fs m = m \<and> (\<forall>g\<in>set fs. fieldDate h tgs g = None)
   \<or> (\<exists>d. dateFieldLoop h tgs fs m =
           setQuality h tgs (m\<lparr>createdAt := Some (Date_ms d),
              possibleCreationSources := possibleCreationSources m @ [''EXIF'']\<rparr>)
        \<and> (\<exists>g\<in>set fs. fieldDate h tgs g = Some d))"
proof (induction fs)
  case Nil
  then show ?case by simp
next
  case (Cons a fs)
  show ?case
  proof (cases "fieldDate h tgs a")
    case None
    with Cons show ?thesis by auto
  next
    case (Some d)
    then show ?thesis by auto
  qed
qed

lemma setQuality_fields [simp]:
  "createdAt (setQuality h tgs m) = createdAt m"
  "possibleCreationSources (setQuality h tgs m) = possibleCreationSources m"
  "validationErrors (setQuality h tgs m) = validationErrors m"
  "validationWarnings (setQuality h tgs m) = validationWarnings m"
  "mimetype (setQuality h tgs m) = mimetype m"
  by (simp_all add: setQuality_def split: option.split)

lemma copyCameraTags_fields [simp]:
  "createdAt (copyCameraTags tgs m) = createdAt m"
  "possibleCreationSources (copyCameraTags tgs m) = possibleCreationSources m"
  "validationErrors (copyCameraTags tgs m) = validationErrors m"
  "validationWarnings (copyCameraTags tgs m) = validationWarnings m"
  "qualityScore (copyCameraTags tgs m) = qualityScore m"
  "mimetype (copyCameraTags tgs m) = mimetype m"
  by (simp_all add: copyCameraTags_def)

lemma checkedMetadata_fields [simp]:
  "createdAt (checkedMetadata h c nm mt sz) = None"
  "possibleCreationSources (checkedMetadata h c nm mt sz) = []"
  "validationWarnings (checkedMetadata h c nm mt sz) = []"
  "qualityScore (checkedMetadata h c nm mt sz) = None"
  "mimetype (checkedMetadata h c nm mt sz) = mt"
  by (simp_all add: checkedMetadata_def checkMimeType_def checkSize_def initialMetadata_def)

lemma extract_valid:
  assumes "file_name f = Some nm" "nm \<noteq> []" "file_mimetype f = Some mt" "mt \<noteq> []"
    "file_size f = Some sz" "sz \<noteq> 0" "file_data f = Some dat"
  shows "extractFileMetadata h (Some f) config =
           Inr (currentTimeStep h (config_or_default config)
                 (fileSystemStep (file_lastModifiedDate f)
                    (exifStep h dat (checkedMetadata h (config_or_default config) nm mt sz))))"
  using assms
  by (simp add: extractFileMetadata_def falsy_string_def falsy_size_def falsy_data_def Let_def)

lemma extract_Inr_valid:
  assumes "extractFileMetadata h file config = Inr m"
  obtains f nm mt sz dat where "file = Some f" "file_name f = Some nm" "nm \<noteq> []"
    "file_mimetype f = Some mt" "mt \<noteq> []" "file_size f = Some sz" "sz \<noteq> 0" "file_data f = Some dat"
  using assms
  by (auto simp: extractFileMetadata_def falsy_string_def falsy_size_def falsy_data_def
      split: option.splits if_splits)


lemma exifStep_shape:
  assumes "createdAt m = None" "possibleCreationSources m = []"
  shows "(createdAt (exifStep h dat m) = None \<and> possibleCreationSources (exifStep h dat m) = [])
       \<or> (\<exists>d. createdAt (exifStep h dat m) = Some (Date_ms d)
              \<and> possibleCreationSources (exifStep h dat m) = [''EXIF''])"
proof (cases "startsWith (mimetype m) ''image/''")
  case False
  with assms show ?thesis by (simp add: exifStep_def)
next
  case True
  show ?thesis
  proof (cases "ExifReader_load h dat")
    case None
    with True assms show ?thesis by (simp add: exifStep_def)
  next
    case (Some tgs)
    from dateFieldLoop_cases [of h tgs dateFields m] Some True assms
    show ?thesis by (auto simp: exifStep_def)
  qed
qed

lemma fallback_steps_set:
  assumes "createdAt x = Some d"
  shows "currentTimeStep h c (fileSystemStep lmd x) = x"
  using assms by (simp add: currentTimeStep_def fileSystemStep_def split: option.split)

lemma fallback_steps_lmd:
  assumes "createdAt x = None"
  shows "currentTimeStep h c (fileSystemStep (Some d) x) =
           x\<lparr>createdAt := Some d,
             possibleCreationSources := possibleCreationSources x @ [''lastModifiedDate'']\<rparr>"
  using assms by (simp add: currentTimeStep_def fileSystemStep_def)

lemma fallback_steps_current:
  assumes "createdAt x = None"
  shows "createdAt (currentTimeStep h c (fileSystemStep None x)) = Some (Date_ms (now h))"
    "possibleCreationSources (currentTimeStep h c (fileSystemStep None x)) =
       possibleCreationSources x @ [''current'']"
    "validationErrors (currentTimeStep h c (fileSystemStep None x)) =
       (if requireOriginalPhoto c
        then validationErrors x @ [''Could not verify original photo creation time. Please upload original photos directly from your camera/phone.'']
        else validationErrors x)"
    "validationWarnings (currentTimeStep h c (fileSystemStep None x)) =
       (if requireOriginalPhoto c
        then validationWarnings x
        else validationWarnings x @ [''Using current time as creation time - this may not reflect when the photo was actually taken''])"
  using assms by (simp_all add: currentTimeStep_def fileSystemStep_def Let_def)

lemma exifStep_found:
  assumes "startsWith (mimetype m) ''image/''" "ExifReader_load h dat = Some tgs"
    and "dateFields = pre @ field # post" "\<forall>g\<in>set pre. fieldDate h tgs g = None"
    and "fieldDate h tgs field = Some d"
  shows "exifStep h dat m =
           copyCameraTags tgs (setQuality h tgs (m\<lparr>createdAt := Some (Date_ms d),
              possibleCreationSources := possibleCreationSources m @ [''EXIF'']\<rparr>))"
  using assms dateFieldLoop_first [of pre h tgs field d post m] by (simp add: exifStep_def)

lemma exifStep_not_found:
  assumes "startsWith (mimetype m) ''image/''" "ExifReader_load h dat = Some tgs"
    and "\<forall>g\<in>set dateFields. fieldDate h tgs g = None"
  shows "exifStep h dat m = copyCameraTags tgs m"
  using assms dateFieldLoop_none [of dateFields h tgs m] by (simp add: exifStep_def)

lemma exifStep_throws:
  assumes "startsWith (mimetype m) ''image/''" "ExifReader_load h dat = None"
  shows "exifStep h dat m = m\<lparr>validationWarnings := validationWarnings m @ [''No EXIF data found'']\<rparr>"
  using assms by (simp add: exifStep_def)

lemma first_usable_field:
  assumes "\<exists>g\<in>set fs. fieldDate h tgs g \<noteq> None"
  obtains pre field post d where "fs = pre @ field # post"
    "\<forall>g\<in>set pre. fieldDate h tgs g = None" "fieldDate h tgs field = Some d"
proof -
  from assms have "\<exists>pre field post d. fs = pre @ field # post
      \<and> (\<forall>g\<in>set pre. fieldDate h tgs g = None) \<and> fieldDate h tgs field = Some d"
  proof (induction fs)
    case Nil
    then show ?case by simp
  next
    case (Cons a fs)
    show ?case
    proof (cases "fieldDate h tgs a")
      case (Some d)
      then have "a # fs = [] @ a # fs \<and> (\<forall>g\<in>set []. fieldDate h tgs g = None) \<and> fieldDate h tgs a = Some d"
        by simp
      then show ?thesis by blast
    next
      case None
      with Cons.prems have "\<exists>g\<in>set fs. fieldDate h tgs g \<noteq> None" by auto
      from Cons.IH [OF this] obtain pre field post d where
        "fs = pre @ field # post" "\<forall>g\<in>set pre. fieldDate h tgs g = None" "fieldDate h tgs field = Some d"
        by blast
      with None have "a # fs = (a # pre) @ field # post
          \<and> (\<forall>g\<in>set (a # pre). fieldDate h tgs g = None) \<and> fieldDate h tgs field = Some d"
        by simp
      then show ?thesis by blast
    qed
  qed
  with that show thesis by blast
qed

lemma fieldDate_SomeI:
  assumes "tgs field = Some t" "description t = Some s" "s \<noteq> []" "Date_parse h s = Date_ms d"
  shows "fieldDate h tgs field = Some d"
  using assms by (simp add: fieldDate_def)

lemma exifStep_errors:
  "validationErrors (exifStep h dat m) = validationErrors m"
proof (cases "startsWith (mimetype m) ''image/''")
  case False
  then show ?thesis by (simp add: exifStep_def)
next
  case True
  show ?thesis
  proof (cases "ExifReader_load h dat")
    case None
    with True show ?thesis by (simp add: exifStep_def)
  next
    case (Some tgs)
    from dateFieldLoop_cases [of h tgs dateFields m] Some True
    show ?thesis by (auto simp: exifStep_def)
  qed
qed

lemma fallback_steps_quality [simp]:
  "qualityScore (currentTimeStep h c x) = qualityScore x"
  "qualityScore (fileSystemStep lmd x) = qualityScore x"
  by (simp_all add: currentTimeStep_def fileSystemStep_def Let_def split: option.split)

lemma setQuality_quality:
  "tgs ''Quality'' = Some q \<Longrightarrow>
     qualityScore (setQuality h tgs m) = Some (js_div (parseInt h (description q)) (Num 100))"
  by (simp add: setQuality_def)

subsection \<open>Evaluation on the UTC host\<close>

lemmas digit_eval = is_digit_def nat_of_digits_def digit_val_def

lemmas utc_calendar_eval = utc_host_def utc_Number_def digit_eval days_from_civil_def
  numbers_def element_def dateOnly_def combineDateAndTime_def todayDate_def

lemma civil_19875: "civil_from_days 19875 = (2024, 6, 1)"
  by code_simp

lemma utc_Date_parse_example: "utc_Date_parse ''2024-06-01T10:00:00'' = Date_ms 1717236000000"
  by (simp add: utc_Date_parse_def digit_eval days_from_civil_def)

section \<open>The extractor's result\<close>

text \<open>
  C10. Every metadata record that \<open>extractFileMetadata\<close> returns has a non-null
  \<open>createdAt\<close>, and its \<open>possibleCreationSources\<close> holds exactly one element, which is
  \<open>EXIF\<close>, \<open>lastModifiedDate\<close> or \<open>current\<close>.
\<close>

theorem extract_creation_source_invariant:
  assumes "extractFileMetadata h file config = Inr m"
  shows "createdAt m \<noteq> None \<and> length (possibleCreationSources m) = 1
       \<and> (possibleCreationSources m = [''EXIF''] \<or> possibleCreationSources m = [''lastModifiedDate'']
          \<or> possibleCreationSources m = [''current''])"
proof -
  from assms obtain f nm mt sz dat where f: "file = Some f" "file_name f = Some nm" "nm \<noteq> []"
    "file_mimetype f = Some mt" "mt \<noteq> []" "file_size f = Some sz" "sz \<noteq> 0" "file_data f = Some dat"
    by (rule extract_Inr_valid)
  define c where "c = config_or_default config"
  define x where "x = exifStep h dat (checkedMetadata h c nm mt sz)"
  have m: "m = currentTimeStep h c (fileSystemStep (file_lastModifiedDate f) x)"
    using assms f extract_valid [of f nm mt sz dat h config] by (simp add: c_def x_def)
  have shape: "(createdAt x = None \<and> possibleCreationSources x = [])
       \<or> (\<exists>d. createdAt x = Some (Date_ms d) \<and> possibleCreationSources x = [''EXIF''])"
    unfolding x_def by (rule exifStep_shape) simp_all
  show ?thesis
  proof (cases "createdAt x")
    case (Some d)
    with shape m show ?thesis by (auto simp: fallback_steps_set)
  next
    case None
    with shape have src: "possibleCreationSources x = []" by auto
    show ?thesis
    proof (cases "file_lastModifiedDate f")
      case (Some d)
      with None src m show ?thesis by (simp add: fallback_steps_lmd)
    next
      case Nolmd: None
      with None src m show ?thesis by (simp add: fallback_steps_current)
    qed
  qed
qed


lemma photo_valid:
  assumes "mt \<noteq> []" "sz \<noteq> 0"
  shows "extractFileMetadata h (Some (photo mt sz lmd)) config =
           Inr (currentTimeStep h (config_or_default config)
                 (fileSystemStep lmd
                    (exifStep h [255, 216]
                       (checkedMetadata h (config_or_default config) ''IMG_0001.jpg'' mt sz))))"
  using assms extract_valid [of "photo mt sz lmd" "''IMG_0001.jpg''" mt sz "[255, 216]" h config]
  by (simp add: photo_def)

text \<open>An image without tags and without a last-modified date: the source is the clock.\<close>

theorem extract_creation_source_invariant_witness:
  "(case extractFileMetadata (utc_host 1717228740000) (Some (photo ''image/jpeg'' 2048 None)) None of
      Inl e \<Rightarrow> False
    | Inr m \<Rightarrow> createdAt m \<noteq> None \<and> length (possibleCreationSources m) = 1
        \<and> (possibleCreationSources m = [''EXIF''] \<or> possibleCreationSources m = [''lastModifiedDate'']
           \<or> possibleCreationSources m = [''current'']))"
proof -
  obtain m where m: "extractFileMetadata (utc_host 1717228740000) (Some (photo ''image/jpeg'' 2048 None)) None = Inr m"
    by (simp add: photo_valid)
  from extract_creation_source_invariant [OF m] m show ?thesis by simp
qed

section \<open>The default configuration\<close>

text \<open>
  The default list of allowed types has a fifth entry, \<open>IMG_\<close>, so as a set it is not the
  four image types.
\<close>

theorem default_mime_types_counterexample:
  "set (allowedMimeTypes DEFAULT_VALIDATION_CONFIG)
     \<noteq> {''image/jpeg'', ''image/png'', ''image/heic'', ''image/heif''}"
proof
  assume "set (allowedMimeTypes DEFAULT_VALIDATION_CONFIG)
     = {''image/jpeg'', ''image/png'', ''image/heic'', ''image/heif''}"
  moreover have "''IMG_'' \<in> set (allowedMimeTypes DEFAULT_VALIDATION_CONFIG)"
    by (simp add: DEFAULT_VALIDATION_CONFIG_def)
  ultimately have "''IMG_'' \<in> {''image/jpeg'', ''image/png'', ''image/heic'', ''image/heif''}"
    by simp
  then show False by simp
qed

text \<open>
  C1, amended. When no configuration is passed, \<open>extractFileMetadata\<close> and
  \<open>validateFileCreationTime\<close> behave as with the default configuration, whose values are
  maxFileSizeInMB 10, minImageWidth 800, minImageHeight 600, timeBufferMinutes 60,
  allowedMimeTypes the list image/jpeg, image/png, IMG_, image/heic, image/heif,
  requireOriginalPhoto false and minQualityScore 0.5.
\<close>

theorem default_config_applies:
  "extractFileMetadata h file None = extractFileMetadata h file (Some DEFAULT_VALIDATION_CONFIG)
   \<and> validateFileCreationTime h m evStart evEnd None
       = validateFileCreationTime h m evStart evEnd (Some DEFAULT_VALIDATION_CONFIG)
   \<and> maxFileSizeInMB DEFAULT_VALIDATION_CONFIG = 10
   \<and> minImageWidth DEFAULT_VALIDATION_CONFIG = 800
   \<and> minImageHeight DEFAULT_VALIDATION_CONFIG = 600
   \<and> timeBufferMinutes DEFAULT_VALIDATION_CONFIG = 60
   \<and> allowedMimeTypes DEFAULT_VALIDATION_CONFIG
       = [''image/jpeg'', ''image/png'', ''IMG_'', ''image/heic'', ''image/heif'']
   \<and> requireOriginalPhoto DEFAULT_VALIDATION_CONFIG = False
   \<and> minQualityScore DEFAULT_VALIDATION_CONFIG = 1 / 2"
proof -
  have "extractFileMetadata h file None = extractFileMetadata h file (Some DEFAULT_VALIDATION_CONFIG)"
    by (cases "file") (simp_all add: extractFileMetadata_def config_or_default_simps)
  moreover have "validateFileCreationTime h m evStart evEnd None
       = validateFileCreationTime h m evStart evEnd (Some DEFAULT_VALIDATION_CONFIG)"
    by (simp add: validateFileCreationTime_def config_or_default_simps
          split: option.split jsdate.split)
  ultimately show ?thesis by (simp add: DEFAULT_VALIDATION_CONFIG_def)
qed

section \<open>Input errors\<close>

text \<open>
  A file whose four required properties are all present, with a size of zero bytes, is
  refused with the input error.
\<close>

theorem present_but_falsy_counterexample:
  "file_name (photo ''image/jpeg'' 0 None) \<noteq> None
   \<and> file_mimetype (photo ''image/jpeg'' 0 None) \<noteq> None
   \<and> file_size (photo ''image/jpeg'' 0 None) \<noteq> None
   \<and> file_data (photo ''image/jpeg'' 0 None) \<noteq> None
   \<and> extractFileMetadata (utc_host 0) (Some (photo ''image/jpeg'' 0 None)) None
       = Inl (Error ''Invalid file object - missing required properties'')"
  by (simp add: photo_def extractFileMetadata_def falsy_string_def falsy_size_def falsy_data_def)

text \<open>
  C2, amended. \<open>extractFileMetadata\<close> raises exactly when the file is absent, or its name
  or mimetype is absent or the empty string, or its size is absent or zero, or its data
  is absent. It raises the missing-parameter error exactly when the file is absent, and
  for every other input it returns a metadata record: later problems are entries of
  \<open>validationErrors\<close> and \<open>validationWarnings\<close> only.
\<close>

theorem extract_raises_iff_falsy:
  "(\<exists>e. extractFileMetadata h file config = Inl e) =
     (file = None
      \<or> (\<exists>f. file = Some f
            \<and> (file_name f = None \<or> file_name f = Some [] \<or> file_mimetype f = None
               \<or> file_mimetype f = Some [] \<or> file_size f = None \<or> file_size f = Some 0
               \<or> file_data f = None)))
   \<and> ((\<exists>e. extractFileMetadata h file config = Inl e) \<or> (\<exists>m. extractFileMetadata h file config = Inr m))
   \<and> (file = None) = (extractFileMetadata h file config = Inl (Error ''Missing required parameter - file''))"
proof -
  have a: "(\<exists>e. extractFileMetadata h file config = Inl e) =
     (file = None
      \<or> (\<exists>f. file = Some f
            \<and> (file_name f = None \<or> file_name f = Some [] \<or> file_mimetype f = None
               \<or> file_mimetype f = Some [] \<or> file_size f = None \<or> file_size f = Some 0
               \<or> file_data f = None)))"
    by (cases "file")
       (auto simp: extractFileMetadata_def falsy_string_def falsy_size_def falsy_data_def Let_def
             split: option.splits)
  have b: "(\<exists>e. extractFileMetadata h file config = Inl e) \<or> (\<exists>m. extractFileMetadata h file config = Inr m)"
    by (cases "extractFileMetadata h file config") auto
  have c: "(file = None) = (extractFileMetadata h file config = Inl (Error ''Missing required parameter - file''))"
    by (cases "file") (auto simp: extractFileMetadata_def Let_def)
  from a b c show ?thesis by blast
qed


section \<open>Dates from the embedded metadata\<close>

text \<open>
  C3. For an image file whose embedded metadata is readable, the date fields are tried
  in the order DateTimeOriginal, CreateDate, ModifyDate, DateTime. If every field before
  \<open>field\<close> in that order is unusable and \<open>field\<close> is present with a non-empty
  description that parses to the time \<open>d\<close>, then the returned \<open>createdAt\<close> is \<open>d\<close> and the
  sources are exactly \<open>EXIF\<close>: neither a later field nor the last-modified date nor the
  clock replaces it.
\<close>

theorem exif_first_parseable_field_wins:
  assumes "extractFileMetadata h (Some f) config = Inr m"
    and "file_mimetype f = Some mt" "startsWith mt ''image/''"
    and "file_data f = Some dat" "ExifReader_load h dat = Some tgs"
    and "dateFields = pre @ field # post"
    and "\<forall>g\<in>set pre. fieldDate h tgs g = None"
    and "tgs field = Some t" "description t = Some s" "s \<noteq> []" "Date_parse h s = Date_ms d"
  shows "dateFields = [''DateTimeOriginal'', ''CreateDate'', ''ModifyDate'', ''DateTime'']
       \<and> createdAt m = Some (Date_ms d) \<and> possibleCreationSources m = [''EXIF'']"
proof -
  from assms(1) obtain nm sz where f: "file_name f = Some nm" "nm \<noteq> []" "mt \<noteq> []"
    "file_size f = Some sz" "sz \<noteq> 0"
    using assms(2) by (auto elim!: extract_Inr_valid)
  define c where "c = config_or_default config"
  define x where "x = exifStep h dat (checkedMetadata h c nm mt sz)"
  have m: "m = currentTimeStep h c (fileSystemStep (file_lastModifiedDate f) x)"
    using assms(1,2,4) f extract_valid [of f nm mt sz dat h config] by (simp add: c_def x_def)
  have fd: "fieldDate h tgs field = Some d"
    using assms(8-11) by (rule fieldDate_SomeI)
  have x: "x = copyCameraTags tgs (setQuality h tgs ((checkedMetadata h c nm mt sz)
              \<lparr>createdAt := Some (Date_ms d),
                possibleCreationSources := possibleCreationSources (checkedMetadata h c nm mt sz) @ [''EXIF'']\<rparr>))"
    unfolding x_def using assms(3,5,6,7) fd by (intro exifStep_found) simp_all
  then have "createdAt x = Some (Date_ms d)" "possibleCreationSources x = [''EXIF'']"
    by simp_all
  with m show ?thesis by (simp add: fallback_steps_set dateFields_def)
qed

text \<open>DateTimeOriginal is present but does not parse, CreateDate and ModifyDate both
  parse, and the file has a last-modified date: CreateDate is the one kept.\<close>

theorem exif_first_parseable_field_wins_witness:
  "(case extractFileMetadata
           (exif_host 0 [(''DateTimeOriginal'', ''unknown''), (''CreateDate'', ''2024-06-01T10:00:00''),
                         (''ModifyDate'', ''2024-06-02T11:00:00'')])
           (Some (photo ''image/jpeg'' 2048 (Some (Date_ms 5)))) None of
      Inl e \<Rightarrow> False
    | Inr m \<Rightarrow> createdAt m = Some (Date_ms 1717236000000) \<and> possibleCreationSources m = [''EXIF''])"
proof -
  define h where "h = exif_host 0 [(''DateTimeOriginal'', ''unknown''), (''CreateDate'', ''2024-06-01T10:00:00''),
                         (''ModifyDate'', ''2024-06-02T11:00:00'')]"
  define tgs :: tags where "tgs = (\<lambda>k. map_option (\<lambda>s. \<lparr> description = Some s \<rparr>)
      (map_of [(''DateTimeOriginal'', ''unknown''), (''CreateDate'', ''2024-06-01T10:00:00''),
                         (''ModifyDate'', ''2024-06-02T11:00:00'')] k))"
  obtain m where m: "extractFileMetadata h (Some (photo ''image/jpeg'' 2048 (Some (Date_ms 5)))) None = Inr m"
    by (simp add: photo_valid)
  have parse: "Date_parse h ''2024-06-01T10:00:00'' = Date_ms 1717236000000"
    by (simp add: h_def exif_host_def utc_host_def utc_Date_parse_example)
  have noparse: "Date_parse h ''unknown'' = Invalid_Date"
    by (simp add: h_def exif_host_def utc_host_def utc_Date_parse_def)
  have "createdAt m = Some (Date_ms 1717236000000) \<and> possibleCreationSources m = [''EXIF'']"
    using exif_first_parseable_field_wins [OF m, of "''image/jpeg''" "[255, 216]" tgs
        "[''DateTimeOriginal'']" "''CreateDate''" "[''ModifyDate'', ''DateTime'']"
        "\<lparr> description = Some ''2024-06-01T10:00:00'' \<rparr>" "''2024-06-01T10:00:00''" 1717236000000]
      parse noparse
    by (simp add: photo_def startsWith_def dateFields_def fieldDate_def tgs_def h_def exif_host_def utc_host_def)
  with m show ?thesis by (simp add: h_def)
qed


section \<open>Unreadable metadata\<close>

text \<open>
  The reader succeeds and finds no tag at all: the only warning is the one of the clock
  fallback, and no no-EXIF-data warning is recorded.
\<close>

theorem no_usable_date_counterexample:
  "extractFileMetadata (utc_host 1717228740000) (Some (photo ''image/jpeg'' 2048 None)) None =
     Inr \<lparr> originalName = ''IMG_0001.jpg'',
           mimetype = ''image/jpeg'',
           size_bytes = 2048,
           sizeInMB = 1 / 512,
           dimensions = None,
           qualityScore = None,
           possibleCreationSources = [''current''],
           createdAt = Some (Date_ms 1717228740000),
           validationErrors = [],
           validationWarnings =
             [''Using current time as creation time - this may not reflect when the photo was actually taken''],
           cameraMake = None,
           cameraModel = None,
           iso = None \<rparr>"
  by (simp add: photo_valid config_or_default_simps DEFAULT_VALIDATION_CONFIG_def
      checkedMetadata_def checkSize_def checkMimeType_def initialMetadata_def
      exifStep_def startsWith_def utc_host_def dateFields_def fieldDate_def
      copyCameraTags_def tagDescription_def fileSystemStep_def currentTimeStep_def)

text \<open>
  C4, amended. For an image file that passes the input guard the call returns, and: if
  reading the embedded metadata throws, the no-EXIF-data warning is the first entry of
  \<open>validationWarnings\<close>; if reading succeeds, with or without a usable date field, no
  such warning is recorded.
\<close>

theorem exif_read_failure_warns:
  assumes "file_name f = Some nm" "nm \<noteq> []" "file_mimetype f = Some mt"
    "startsWith mt ''image/''" "file_size f = Some sz" "sz \<noteq> 0" "file_data f = Some dat"
  shows "\<exists>m. extractFileMetadata h (Some f) config = Inr m
           \<and> (case ExifReader_load h dat of
                 None \<Rightarrow> (\<exists>ws. validationWarnings m = ''No EXIF data found'' # ws)
               | Some tgs \<Rightarrow> ''No EXIF data found'' \<notin> set (validationWarnings m))"
proof -
  define c where "c = config_or_default config"
  define m0 where "m0 = checkedMetadata h c nm mt sz"
  define x where "x = exifStep h dat m0"
  define m where "m = currentTimeStep h c (fileSystemStep (file_lastModifiedDate f) x)"
  from assms(4) have mt: "mt \<noteq> []" by (auto simp: startsWith_def)
  have r: "extractFileMetadata h (Some f) config = Inr m"
    using assms mt extract_valid [of f nm mt sz dat h config] by (simp add: c_def m0_def x_def m_def)
  have img: "startsWith (mimetype m0) ''image/''"
    using assms(4) by (simp add: m0_def)
  have final: "validationWarnings m = validationWarnings x
      \<or> validationWarnings m = validationWarnings x
           @ [''Using current time as creation time - this may not reflect when the photo was actually taken'']"
  proof (cases "createdAt x")
    case (Some d)
    then show ?thesis by (simp add: m_def fallback_steps_set)
  next
    case None
    then show ?thesis
      by (cases "file_lastModifiedDate f") (simp_all add: m_def fallback_steps_lmd fallback_steps_current)
  qed
  have "case ExifReader_load h dat of
          None \<Rightarrow> (\<exists>ws. validationWarnings m = ''No EXIF data found'' # ws)
        | Some tgs \<Rightarrow> ''No EXIF data found'' \<notin> set (validationWarnings m)"
  proof (cases "ExifReader_load h dat")
    case None
    with img have "validationWarnings x = [''No EXIF data found'']"
      by (simp add: x_def exifStep_throws m0_def)
    with final None show ?thesis by auto
  next
    case (Some tgs)
    have "validationWarnings x = []"
    proof (cases "\<exists>g\<in>set dateFields. fieldDate h tgs g \<noteq> None")
      case True
      then obtain pre field post d where "dateFields = pre @ field # post"
        "\<forall>g\<in>set pre. fieldDate h tgs g = None" "fieldDate h tgs field = Some d"
        by (rule first_usable_field)
      with img Some show ?thesis by (simp add: x_def exifStep_found m0_def)
    next
      case False
      with img Some show ?thesis by (simp add: x_def exifStep_not_found m0_def)
    qed
    with final Some show ?thesis by auto
  qed
  with r show ?thesis by blast
qed

text \<open>A reader that throws on a file without a last-modified date: both warnings, the
  no-EXIF-data one first.\<close>

theorem exif_read_failure_warns_witness:
  "(case extractFileMetadata (unreadable_host 0) (Some (photo ''image/png'' 2048 None)) None of
      Inl e \<Rightarrow> False
    | Inr m \<Rightarrow> validationWarnings m =
        [''No EXIF data found'',
         ''Using current time as creation time - this may not reflect when the photo was actually taken''])"
proof -
  have "ExifReader_load (unreadable_host 0) [255, 216] = None"
    by (simp add: unreadable_host_def)
  with exif_read_failure_warns [of "photo ''image/png'' 2048 None" "''IMG_0001.jpg''" "''image/png''"
      2048 "[255, 216]" "unreadable_host 0" None]
  obtain m ws where m: "extractFileMetadata (unreadable_host 0) (Some (photo ''image/png'' 2048 None)) None = Inr m"
    and "validationWarnings m = ''No EXIF data found'' # ws"
    by (auto simp: photo_def startsWith_def)
  moreover from m [symmetric] have "validationWarnings m =
        [''No EXIF data found'',
         ''Using current time as creation time - this may not reflect when the photo was actually taken'']"
    by (simp add: photo_valid config_or_default_simps DEFAULT_VALIDATION_CONFIG_def
      exifStep_throws startsWith_def fallback_steps_current unreadable_host_def utc_host_def split: if_splits)
  ultimately show ?thesis by simp
qed


section \<open>The quality score\<close>

text \<open>
  The reader returns a Quality tag and no date field: the quality score stays null.
\<close>

theorem quality_without_date_counterexample:
  "extractFileMetadata (exif_host 0 [(''Quality'', ''85'')]) (Some (photo ''image/jpeg'' 2048 None)) None =
     Inr \<lparr> originalName = ''IMG_0001.jpg'',
           mimetype = ''image/jpeg'',
           size_bytes = 2048,
           sizeInMB = 1 / 512,
           dimensions = None,
           qualityScore = None,
           possibleCreationSources = [''current''],
           createdAt = Some (Date_ms 0),
           validationErrors = [],
           validationWarnings =
             [''Using current time as creation time - this may not reflect when the photo was actually taken''],
           cameraMake = None,
           cameraModel = None,
           iso = None \<rparr>"
  by (simp add: photo_valid config_or_default_simps DEFAULT_VALIDATION_CONFIG_def
      checkedMetadata_def checkSize_def checkMimeType_def initialMetadata_def
      exifStep_def startsWith_def exif_host_def utc_host_def dateFields_def fieldDate_def
      copyCameraTags_def tagDescription_def fileSystemStep_def currentTimeStep_def)

text \<open>
  C5, amended. For an image file whose embedded metadata is readable and carries a
  quality tag, the returned \<open>qualityScore\<close> is \<open>parseInt\<close> of that tag's description
  divided by 100 when one of the four date fields is usable (present, with a non-empty
  description that parses); when none is, \<open>qualityScore\<close> stays null.
\<close>

theorem quality_score_with_exif_date:
  assumes "file_name f = Some nm" "nm \<noteq> []" "file_mimetype f = Some mt"
    "startsWith mt ''image/''" "file_size f = Some sz" "sz \<noteq> 0" "file_data f = Some dat"
    and "ExifReader_load h dat = Some tgs" "tgs ''Quality'' = Some q"
  shows "\<exists>m. extractFileMetadata h (Some f) config = Inr m
           \<and> qualityScore m =
               (if \<exists>g\<in>set dateFields. fieldDate h tgs g \<noteq> None
                then Some (js_div (parseInt h (description q)) (Num 100))
                else None)"
proof -
  define c where "c = config_or_default config"
  define m0 where "m0 = checkedMetadata h c nm mt sz"
  define x where "x = exifStep h dat m0"
  define m where "m = currentTimeStep h c (fileSystemStep (file_lastModifiedDate f) x)"
  from assms(4) have mt: "mt \<noteq> []" by (auto simp: startsWith_def)
  have r: "extractFileMetadata h (Some f) config = Inr m"
    using assms(1-7) mt extract_valid [of f nm mt sz dat h config]
    by (simp add: c_def m0_def x_def m_def)
  have img: "startsWith (mimetype m0) ''image/''"
    using assms(4) by (simp add: m0_def)
  have "qualityScore m =
          (if \<exists>g\<in>set dateFields. fieldDate h tgs g \<noteq> None
           then Some (js_div (parseInt h (description q)) (Num 100)) else None)"
  proof (cases "\<exists>g\<in>set dateFields. fieldDate h tgs g \<noteq> None")
    case True
    then obtain pre field post d where "dateFields = pre @ field # post"
      "\<forall>g\<in>set pre. fieldDate h tgs g = None" "fieldDate h tgs field = Some d"
      by (rule first_usable_field)
    with img assms(8) have "x = copyCameraTags tgs (setQuality h tgs (m0\<lparr>createdAt := Some (Date_ms d),
              possibleCreationSources := possibleCreationSources m0 @ [''EXIF'']\<rparr>))"
      unfolding x_def by (intro exifStep_found) simp_all
    with True assms(9) show ?thesis by (simp add: m_def setQuality_quality)
  next
    case False
    with img assms(8) have "x = copyCameraTags tgs m0"
      unfolding x_def by (intro exifStep_not_found) simp_all
    with False show ?thesis by (simp add: m_def m0_def)
  qed
  with r show ?thesis by blast
qed

text \<open>A CreateDate that parses and a Quality tag of 85: the score is 85/100.\<close>

theorem quality_score_with_exif_date_witness:
  "(case extractFileMetadata (exif_host 0 [(''CreateDate'', ''2024-06-01T10:00:00''), (''Quality'', ''85'')])
           (Some (photo ''image/jpeg'' 2048 None)) None of
      Inl e \<Rightarrow> False
    | Inr m \<Rightarrow> qualityScore m = Some (Num (17 / 20)))"
proof -
  define h where "h = exif_host 0 [(''CreateDate'', ''2024-06-01T10:00:00''), (''Quality'', ''85'')]"
  define tgs :: tags where "tgs = (\<lambda>k. map_option (\<lambda>s. \<lparr> description = Some s \<rparr>)
      (map_of [(''CreateDate'', ''2024-06-01T10:00:00''), (''Quality'', ''85'')] k))"
  have load: "ExifReader_load h [255, 216] = Some tgs"
    by (simp add: h_def tgs_def exif_host_def)
  have q: "tgs ''Quality'' = Some \<lparr> description = Some ''85'' \<rparr>"
    by (simp add: tgs_def)
  have parse: "Date_parse h ''2024-06-01T10:00:00'' = Date_ms 1717236000000"
    by (simp add: h_def exif_host_def utc_host_def utc_Date_parse_example)
  have fd: "fieldDate h tgs ''CreateDate'' = Some 1717236000000"
    using parse by (simp add: fieldDate_def tgs_def)
  have score: "js_div (parseInt h (Some ''85'')) (Num 100) = Num (17 / 20)"
    by (simp add: h_def exif_host_def utc_host_def utc_parseInt_def digit_eval)
  from quality_score_with_exif_date [of "photo ''image/jpeg'' 2048 None" "''IMG_0001.jpg''"
      "''image/jpeg''" 2048 "[255, 216]" h tgs "\<lparr> description = Some ''85'' \<rparr>" None] load q
  obtain m where m: "extractFileMetadata h (Some (photo ''image/jpeg'' 2048 None)) None = Inr m"
    and "qualityScore m =
               (if \<exists>g\<in>set dateFields. fieldDate h tgs g \<noteq> None
                then Some (js_div (parseInt h (description \<lparr> description = Some ''85'' \<rparr>)) (Num 100))
                else None)"
    by (auto simp: photo_def startsWith_def)
  moreover have "\<exists>g\<in>set dateFields. fieldDate h tgs g \<noteq> None"
    using fd by (simp add: dateFields_def)
  ultimately have "qualityScore m = Some (Num (17 / 20))"
    using score by simp
  with m show ?thesis by (simp add: h_def)
qed

section \<open>Fallbacks for the creation time\<close>

text \<open>
  C6. For a file whose returned sources do not contain \<open>EXIF\<close> (no creation time came
  from the embedded metadata): if the file has a last-modified date, \<open>createdAt\<close> is that
  date and the sources are exactly \<open>lastModifiedDate\<close>; otherwise \<open>createdAt\<close> is the
  current time, the sources are exactly \<open>current\<close>, and either the blocking error is
  appended to the errors of the size and type checks (\<open>requireOriginalPhoto\<close> true, the
  warnings unchanged) or only the warning is appended (\<open>requireOriginalPhoto\<close> false, the
  errors unchanged).
\<close>

theorem fallback_creation_time:
  assumes "extractFileMetadata h (Some f) config = Inr m"
    and "''EXIF'' \<notin> set (possibleCreationSources m)"
    and "file_name f = Some nm" "file_mimetype f = Some mt" "file_size f = Some sz"
      "file_data f = Some dat"
  shows "case file_lastModifiedDate f of
           Some d \<Rightarrow> createdAt m = Some d \<and> possibleCreationSources m = [''lastModifiedDate'']
         | None \<Rightarrow>
             createdAt m = Some (Date_ms (now h)) \<and> possibleCreationSources m = [''current'']
             \<and> (if requireOriginalPhoto (config_or_default config)
                then validationErrors m =
                       validationErrors (checkedMetadata h (config_or_default config) nm mt sz)
                         @ [''Could not verify original photo creation time. Please upload original photos directly from your camera/phone.'']
                     \<and> validationWarnings m =
                       validationWarnings (exifStep h dat (checkedMetadata h (config_or_default config) nm mt sz))
                else validationErrors m =
                       validationErrors (checkedMetadata h (config_or_default config) nm mt sz)
                     \<and> validationWarnings m =
                       validationWarnings (exifStep h dat (checkedMetadata h (config_or_default config) nm mt sz))
                         @ [''Using current time as creation time - this may not reflect when the photo was actually taken''])"
proof -
  from assms(1) have v: "nm \<noteq> []" "mt \<noteq> []" "sz \<noteq> 0"
    using assms(3-5) by (auto elim!: extract_Inr_valid)
  define c where "c = config_or_default config"
  define m0 where "m0 = checkedMetadata h c nm mt sz"
  define x where "x = exifStep h dat m0"
  have m: "m = currentTimeStep h c (fileSystemStep (file_lastModifiedDate f) x)"
    using assms(1,3-6) v extract_valid [of f nm mt sz dat h config]
    by (simp add: c_def m0_def x_def)
  have shape: "(createdAt x = None \<and> possibleCreationSources x = [])
       \<or> (\<exists>d. createdAt x = Some (Date_ms d) \<and> possibleCreationSources x = [''EXIF''])"
    unfolding x_def m0_def by (rule exifStep_shape) simp_all
  have none: "createdAt x = None" and src: "possibleCreationSources x = []"
    using shape assms(2) m by (auto simp: fallback_steps_set)
  have errs: "validationErrors x = validationErrors m0"
    by (simp add: x_def exifStep_errors)
  show ?thesis
  proof (cases "file_lastModifiedDate f")
    case (Some d)
    with none src m show ?thesis by (simp add: fallback_steps_lmd)
  next
    case None
    with none src m errs show ?thesis
      by (simp add: fallback_steps_current c_def [symmetric] m0_def [symmetric] x_def [symmetric])
  qed
qed

text \<open>A PDF without a last-modified date under a configuration that requires original
  photos: the type error of the earlier check, then the blocking error.\<close>

theorem fallback_creation_time_witness:
  "(case extractFileMetadata (utc_host 42) (Some (photo ''application/pdf'' 2048 None))
           (Some (DEFAULT_VALIDATION_CONFIG\<lparr>requireOriginalPhoto := True\<rparr>)) of
      Inl e \<Rightarrow> False
    | Inr m \<Rightarrow>
        createdAt m = Some (Date_ms 42) \<and> possibleCreationSources m = [''current'']
        \<and> validationErrors m =
            [''File type application/pdf is not allowed. Allowed types: image/jpeg, image/png, IMG_, image/heic, image/heif'',
             ''Could not verify original photo creation time. Please upload original photos directly from your camera/phone.'']
        \<and> validationWarnings m = [])"
proof -
  define cfg where "cfg = DEFAULT_VALIDATION_CONFIG\<lparr>requireOriginalPhoto := True\<rparr>"
  obtain m where m: "extractFileMetadata (utc_host 42) (Some (photo ''application/pdf'' 2048 None)) (Some cfg) = Inr m"
    by (simp add: photo_valid)
  have src: "''EXIF'' \<notin> set (possibleCreationSources m)"
    using m [symmetric]
    by (simp add: photo_valid exifStep_def startsWith_def fallback_steps_current)
  have e0: "validationErrors (checkedMetadata (utc_host 42) cfg ''IMG_0001.jpg'' ''application/pdf'' 2048) =
      [''File type application/pdf is not allowed. Allowed types: image/jpeg, image/png, IMG_, image/heic, image/heif'']"
    by (simp add: cfg_def DEFAULT_VALIDATION_CONFIG_def checkedMetadata_def checkSize_def
        checkMimeType_def initialMetadata_def)
  have w0: "validationWarnings (exifStep (utc_host 42) [255, 216]
      (checkedMetadata (utc_host 42) cfg ''IMG_0001.jpg'' ''application/pdf'' 2048)) = []"
    by (simp add: exifStep_def startsWith_def)
  from fallback_creation_time [OF m src, of "''IMG_0001.jpg''" "''application/pdf''" 2048 "[255, 216]"] e0 w0
  have "createdAt m = Some (Date_ms 42) \<and> possibleCreationSources m = [''current'']
        \<and> validationErrors m =
            [''File type application/pdf is not allowed. Allowed types: image/jpeg, image/png, IMG_, image/heic, image/heif'',
             ''Could not verify original photo creation time. Please upload original photos directly from your camera/phone.'']
        \<and> validationWarnings m = []"
    by (simp add: photo_def config_or_default_simps cfg_def DEFAULT_VALIDATION_CONFIG_def utc_host_def)
  with m show ?thesis by (simp add: cfg_def)
qed


section \<open>The creation-time validator\<close>

lemma validateFileCreationTime_valid_dates:
  assumes "createdAt m = Some (Date_ms c)"
    and "bStart = es - timeBufferMinutes (config_or_default config) * 60 * 1000"
    and "bEnd = ee + timeBufferMinutes (config_or_default config) * 60 * 1000"
  shows "validateFileCreationTime h m (Date_ms es) (Date_ms ee) config =
    Inr \<lparr> isValid = (bStart \<le> c \<and> c \<le> bEnd),
          resultCreatedAt = Date_ms c,
          details =
            \<lparr> fileCreatedAt = toISOString h c,
              eventStart = toISOString h es,
              eventEnd = toISOString h ee,
              creationSource = firstSource (possibleCreationSources m),
              timeOffset =
                (if bStart \<le> c \<and> c \<le> bEnd then None
                 else if c < bStart then Some ((bStart - c) div (1000 * 60))
                 else Some ((c - bEnd) div (1000 * 60))),
              message =
                (if bStart \<le> c \<and> c \<le> bEnd
                 then ''File creation time is valid (detected via ''
                        @ show_source (firstSource (possibleCreationSources m)) @ '')''
                 else if c < bStart
                 then ''File was created '' @ string_of_int ((bStart - c) div (1000 * 60))
                        @ '' minutes before the allowed time window''
                 else ''File was created '' @ string_of_int ((c - bEnd) div (1000 * 60))
                        @ '' minutes after the allowed time window'') \<rparr> \<rparr>"
  using assms(1) unfolding validateFileCreationTime_def assms(2,3) by (simp add: Let_def)

text \<open>
  C7. For a metadata record whose \<open>createdAt\<close> is a date and an event window of two
  dates, \<open>validateFileCreationTime\<close> returns, and \<open>isValid\<close> holds exactly when \<open>createdAt\<close>
  lies in the closed interval from \<open>eventStart\<close> minus the buffer to \<open>eventEnd\<close> plus the
  buffer (times in milliseconds, the buffer being \<open>timeBufferMinutes\<close> minutes).
\<close>

theorem creation_time_valid_iff_in_buffered_window:
  assumes "createdAt m = Some (Date_ms c)"
  shows "\<exists>r. validateFileCreationTime h m (Date_ms es) (Date_ms ee) config = Inr r
           \<and> isValid r =
               (es - timeBufferMinutes (config_or_default config) * 60 * 1000 \<le> c
                \<and> c \<le> ee + timeBufferMinutes (config_or_default config) * 60 * 1000)"
  using validateFileCreationTime_valid_dates [OF assms refl refl, where h = h and es = es and ee = ee and config = config] by simp

text \<open>An event from 09:00 to 17:00 on 2024-06-01 (UTC) with the default buffer of 60
  minutes: 08:00:00.000 and 18:00:00.000 are accepted, 07:59:59.999 is not.\<close>

theorem creation_time_valid_iff_in_buffered_window_witness:
  "(case validateFileCreationTime (utc_host 0) (metadata_at 1717228800000)
           (Date_ms 1717232400000) (Date_ms 1717261200000) None of
      Inl e \<Rightarrow> False | Inr r \<Rightarrow> isValid r)
   \<and> (case validateFileCreationTime (utc_host 0) (metadata_at 1717264800000)
           (Date_ms 1717232400000) (Date_ms 1717261200000) None of
      Inl e \<Rightarrow> False | Inr r \<Rightarrow> isValid r)
   \<and> (case validateFileCreationTime (utc_host 0) (metadata_at 1717228799999)
           (Date_ms 1717232400000) (Date_ms 1717261200000) None of
      Inl e \<Rightarrow> False | Inr r \<Rightarrow> isValid r = False)"
proof -
  have c: "createdAt (metadata_at t) = Some (Date_ms t)" for t
    by (simp add: metadata_at_def)
  have b: "timeBufferMinutes (config_or_default None) = 60"
    by (simp add: config_or_default_simps DEFAULT_VALIDATION_CONFIG_def)
  from creation_time_valid_iff_in_buffered_window [OF c [of 1717228800000], where h = "utc_host 0"
      and es = 1717232400000 and ee = 1717261200000 and config = None]
  have 1: "case validateFileCreationTime (utc_host 0) (metadata_at 1717228800000)
           (Date_ms 1717232400000) (Date_ms 1717261200000) None of
      Inl e \<Rightarrow> False | Inr r \<Rightarrow> isValid r"
    by (auto simp: b)
  from creation_time_valid_iff_in_buffered_window [OF c [of 1717264800000], where h = "utc_host 0"
      and es = 1717232400000 and ee = 1717261200000 and config = None]
  have 2: "case validateFileCreationTime (utc_host 0) (metadata_at 1717264800000)
           (Date_ms 1717232400000) (Date_ms 1717261200000) None of
      Inl e \<Rightarrow> False | Inr r \<Rightarrow> isValid r"
    by (auto simp: b)
  from creation_time_valid_iff_in_buffered_window [OF c [of 1717228799999], where h = "utc_host 0"
      and es = 1717232400000 and ee = 1717261200000 and config = None]
  have 3: "case validateFileCreationTime (utc_host 0) (metadata_at 1717228799999)
           (Date_ms 1717232400000) (Date_ms 1717261200000) None of
      Inl e \<Rightarrow> False | Inr r \<Rightarrow> isValid r = False"
    by (auto simp: b)
  from 1 2 3 show ?thesis by blast
qed

text \<open>
  C8. When the verdict is invalid, \<open>timeOffset\<close> is the number of whole minutes (the
  distance in milliseconds divided by 60000, rounded down, never negative) from
  \<open>createdAt\<close> to the bound it violates: the buffered start when \<open>createdAt\<close> is before it,
  otherwise the buffered end, which \<open>createdAt\<close> is then after. The message prints that
  number with the word before or after. When the verdict is valid, \<open>timeOffset\<close> is null.
\<close>

theorem time_offset_outside_window:
  assumes "createdAt m = Some (Date_ms c)"
    and "validateFileCreationTime h m (Date_ms es) (Date_ms ee) config = Inr r"
    and "bStart = es - timeBufferMinutes (config_or_default config) * 60 * 1000"
    and "bEnd = ee + timeBufferMinutes (config_or_default config) * 60 * 1000"
  shows "if isValid r then timeOffset (details r) = None
         else if c < bStart
         then timeOffset (details r) = Some ((bStart - c) div 60000)
              \<and> 0 \<le> (bStart - c) div 60000
              \<and> message (details r) =
                  ''File was created '' @ string_of_int ((bStart - c) div 60000)
                    @ '' minutes before the allowed time window''
         else bEnd < c
              \<and> timeOffset (details r) = Some ((c - bEnd) div 60000)
              \<and> 0 \<le> (c - bEnd) div 60000
              \<and> message (details r) =
                  ''File was created '' @ string_of_int ((c - bEnd) div 60000)
                    @ '' minutes after the allowed time window''"
proof -
  note r = validateFileCreationTime_valid_dates [OF assms(1,3,4), where h = h]
  from assms(2) r have "isValid r = (bStart \<le> c \<and> c \<le> bEnd)"
    by auto
  moreover have "c < bStart \<Longrightarrow> 0 \<le> (bStart - c) div 60000"
    by (simp add: pos_imp_zdiv_nonneg_iff)
  moreover have "bEnd < c \<Longrightarrow> 0 \<le> (c - bEnd) div 60000"
    by (simp add: pos_imp_zdiv_nonneg_iff)
  ultimately show ?thesis
    using assms(2) r by auto
qed

text \<open>The event of 09:00 to 17:00 with the 60-minute buffer and a file of 07:59: one
  minute before the window.\<close>

theorem time_offset_outside_window_witness:
  "(case validateFileCreationTime (utc_host 0) (metadata_at 1717228740000)
           (Date_ms 1717232400000) (Date_ms 1717261200000) None of
      Inl e \<Rightarrow> False
    | Inr r \<Rightarrow> isValid r = False \<and> timeOffset (details r) = Some 1
        \<and> message (details r) = ''File was created 1 minutes before the allowed time window'')"
proof -
  have c: "createdAt (metadata_at 1717228740000) = Some (Date_ms 1717228740000)"
    by (simp add: metadata_at_def)
  have b: "timeBufferMinutes (config_or_default None) = 60"
    by (simp add: config_or_default_simps DEFAULT_VALIDATION_CONFIG_def)
  obtain r where r: "validateFileCreationTime (utc_host 0) (metadata_at 1717228740000)
           (Date_ms 1717232400000) (Date_ms 1717261200000) None = Inr r"
    and v: "isValid r = False"
    using validateFileCreationTime_valid_dates [OF c refl refl, where h = "utc_host 0" and es = 1717232400000 and ee = 1717261200000 and config = None]
    by (simp add: b)
  have s: "string_of_int 1 = ''1''"
    by (simp add: string_of_int_def string_of_nat.simps digit_char_def)
  from time_offset_outside_window [OF c r, where bStart = 1717228800000 and bEnd = 1717264800000] v s
  have "timeOffset (details r) = Some 1
        \<and> message (details r) = ''File was created 1 minutes before the allowed time window''"
    by (simp add: b)
  with r v show ?thesis by simp
qed

section \<open>The event time-range validator\<close>

lemma validateEventTimes_errors:
  "errors (validateEventTimes h startDate endDate startTime endTime) =
      (if date_lt (dateOnly h startDate) (todayDate h) then [''Start date cannot be in the past''] else [])
    @ (if date_lt (dateOnly h endDate) (dateOnly h startDate)
       then [''End date cannot be before start date''] else [])
    @ (if time_eq (dateOnly h startDate) (todayDate h)
          \<and> date_lt (combineDateAndTime h startDate startTime) (Date_ms (now h))
       then [''Start time cannot be in the past for today's date. You can create 1 mins ahead of your current time if the event has started already!!'']
       else [])
    @ (if startDate = endDate
          \<and> date_lt (combineDateAndTime h endDate endTime) (combineDateAndTime h startDate startTime)
       then [''End time cannot be before start time on the same day''] else [])"
  by (auto simp: validateEventTimes_def Let_def fail_def)

lemma validateEventTimes_valid_iff:
  "eventIsValid (validateEventTimes h startDate endDate startTime endTime)
     = (errors (validateEventTimes h startDate endDate startTime endTime) = [])"
  by (simp add: validateEventTimes_def Let_def fail_def)

lemma dateOnly_parts:
  assumes "split_on CHR ''-'' dateStr = [y, m, d]"
  shows "dateOnly h dateStr =
           Date_local h (Number h y) (js_sub (Number h m) (Num 1)) (Number h d) (Num 0) (Num 0)"
  using assms by (simp add: dateOnly_def numbers_def element_def)

lemma combineDateAndTime_parts:
  assumes "split_on CHR ''-'' dateStr = [y, m, d]" "split_on CHR '':'' timeStr = [hh, mi]"
  shows "combineDateAndTime h dateStr timeStr =
           Date_local h (Number h y) (js_sub (Number h m) (Num 1)) (Number h d) (Number h hh) (Number h mi)"
  using assms by (simp add: combineDateAndTime_def numbers_def element_def)

text \<open>
  C9. Let the date strings split at \<open>-\<close> into year, month and day and the time strings
  at \<open>:\<close> into hours and minutes, and let the local-time constructor, applied to the
  numbers read from these parts (month minus one; no time of day for the two date-only
  values), give valid dates: \<open>start\<close>, \<open>end_d\<close>, \<open>startT\<close>, \<open>endT\<close>, and \<open>today\<close> from the
  calendar fields of the current moment. Then \<open>validateEventTimes\<close> records one error for
  each of its four checks that fails (start date before today; end date before start
  date; start date equal to today and start date-time before now; equal date strings
  and end date-time before start date-time), each whatever the other checks find, in
  this order, and \<open>isValid\<close> holds exactly when no error was recorded. Errors do occur
  together: on 2024-06-01 at 07:59 (UTC), an event of that day from 07:58 to 07:00 fails
  the third and the fourth check, and an event from 2024-05-31 to 2024-05-30 the first
  and the second.
\<close>

theorem event_time_checks_accumulate:
  assumes "split_on CHR ''-'' startDate = [sy, sm, sd]"
    and "split_on CHR ''-'' endDate = [ey, em, ed]"
    and "split_on CHR '':'' startTime = [sh, smin]"
    and "split_on CHR '':'' endTime = [eh, emin]"
    and "Date_local h (Number h sy) (js_sub (Number h sm) (Num 1)) (Number h sd) (Num 0) (Num 0)
           = Date_ms start"
    and "Date_local h (Number h ey) (js_sub (Number h em) (Num 1)) (Number h ed) (Num 0) (Num 0)
           = Date_ms end_d"
    and "Date_local h (Number h sy) (js_sub (Number h sm) (Num 1)) (Number h sd)
           (Number h sh) (Number h smin) = Date_ms startT"
    and "Date_local h (Number h ey) (js_sub (Number h em) (Num 1)) (Number h ed)
           (Number h eh) (Number h emin) = Date_ms endT"
    and "Date_local h (Num (of_int (getFullYear h (now h)))) (Num (of_int (getMonth h (now h))))
           (Num (of_int (getDate h (now h)))) (Num 0) (Num 0) = Date_ms today"
  shows "errors (validateEventTimes h startDate endDate startTime endTime) =
      (if start < today then [''Start date cannot be in the past''] else [])
    @ (if end_d < start then [''End date cannot be before start date''] else [])
    @ (if start = today \<and> startT < now h
       then [''Start time cannot be in the past for today's date. You can create 1 mins ahead of your current time if the event has started already!!'']
       else [])
    @ (if startDate = endDate \<and> endT < startT
       then [''End time cannot be before start time on the same day''] else [])
   \<and> eventIsValid (validateEventTimes h startDate endDate startTime endTime)
       = (errors (validateEventTimes h startDate endDate startTime endTime) = [])
   \<and> validateEventTimes (utc_host 1717228740000) ''2024-06-01'' ''2024-06-01'' ''07:58'' ''07:00''
       = \<lparr> eventIsValid = False,
           errors = [''Start time cannot be in the past for today's date. You can create 1 mins ahead of your current time if the event has started already!!'',
                     ''End time cannot be before start time on the same day''] \<rparr>
   \<and> validateEventTimes (utc_host 1717228740000) ''2024-05-31'' ''2024-05-30'' ''07:58'' ''09:00''
       = \<lparr> eventIsValid = False,
           errors = [''Start date cannot be in the past'', ''End date cannot be before start date''] \<rparr>"
proof -
  have so: "dateOnly h startDate = Date_ms start"
    using dateOnly_parts [OF assms(1), of h] assms(5) by simp
  have eo: "dateOnly h endDate = Date_ms end_d"
    using dateOnly_parts [OF assms(2), of h] assms(6) by simp
  have st: "combineDateAndTime h startDate startTime = Date_ms startT"
    using combineDateAndTime_parts [OF assms(1,3), of h] assms(7) by simp
  have et: "combineDateAndTime h endDate endTime = Date_ms endT"
    using combineDateAndTime_parts [OF assms(2,4), of h] assms(8) by simp
  have td: "todayDate h = Date_ms today"
    using assms(9) by (simp add: todayDate_def)
  have a: "errors (validateEventTimes h startDate endDate startTime endTime) =
      (if start < today then [''Start date cannot be in the past''] else [])
    @ (if end_d < start then [''End date cannot be before start date''] else [])
    @ (if start = today \<and> startT < now h
       then [''Start time cannot be in the past for today's date. You can create 1 mins ahead of your current time if the event has started already!!'']
       else [])
    @ (if startDate = endDate \<and> endT < startT
       then [''End time cannot be before start time on the same day''] else [])"
    unfolding validateEventTimes_errors so eo st et td by simp
  have b: "validateEventTimes (utc_host 1717228740000) ''2024-06-01'' ''2024-06-01'' ''07:58'' ''07:00''
       = \<lparr> eventIsValid = False,
           errors = [''Start time cannot be in the past for today's date. You can create 1 mins ahead of your current time if the event has started already!!'',
                     ''End time cannot be before start time on the same day''] \<rparr>"
    by (simp add: validateEventTimes_def fail_def Let_def utc_calendar_eval civil_19875)
  have c: "validateEventTimes (utc_host 1717228740000) ''2024-05-31'' ''2024-05-30'' ''07:58'' ''09:00''
       = \<lparr> eventIsValid = False,
           errors = [''Start date cannot be in the past'', ''End date cannot be before start date''] \<rparr>"
    by (simp add: validateEventTimes_def fail_def Let_def utc_calendar_eval civil_19875)
  from a b c validateEventTimes_valid_iff [of h startDate endDate startTime endTime]
  show ?thesis by blast
qed

text \<open>
  On 2024-06-01 at 07:59 (UTC): an event of today starting at 07:58 fails the third check
  only; an event from tomorrow to today the second only; an event of tomorrow from 10:00
  to 09:00 the fourth only; an event from tomorrow 10:00 to the day after at 09:00 is
  valid.
\<close>

theorem event_time_checks_accumulate_witness:
  "validateEventTimes (utc_host 1717228740000) ''2024-06-01'' ''2024-06-01'' ''07:58'' ''09:00''
     = \<lparr> eventIsValid = False,
         errors = [''Start time cannot be in the past for today's date. You can create 1 mins ahead of your current time if the event has started already!!''] \<rparr>
   \<and> validateEventTimes (utc_host 1717228740000) ''2024-06-02'' ''2024-06-01'' ''10:00'' ''11:00''
     = \<lparr> eventIsValid = False, errors = [''End date cannot be before start date''] \<rparr>
   \<and> validateEventTimes (utc_host 1717228740000) ''2024-06-02'' ''2024-06-02'' ''10:00'' ''09:00''
     = \<lparr> eventIsValid = False, errors = [''End time cannot be before start time on the same day''] \<rparr>
   \<and> validateEventTimes (utc_host 1717228740000) ''2024-06-02'' ''2024-06-03'' ''10:00'' ''09:00''
     = \<lparr> eventIsValid = True, errors = [] \<rparr>"
proof -
  have r: "v = \<lparr> eventIsValid = b, errors = es \<rparr>" if "errors v = es" "eventIsValid v = b"
    for v :: EventTimeValidation and b es
    using that by (cases v) simp
  have 1: "validateEventTimes (utc_host 1717228740000) ''2024-06-01'' ''2024-06-01'' ''07:58'' ''09:00''
     = \<lparr> eventIsValid = False,
         errors = [''Start time cannot be in the past for today's date. You can create 1 mins ahead of your current time if the event has started already!!''] \<rparr>"
    using event_time_checks_accumulate [where h = "utc_host 1717228740000"
        and startDate = "''2024-06-01''" and endDate = "''2024-06-01''" and startTime = "''07:58''" and endTime = "''09:00''"
        and sy = "''2024''" and sm = "''06''" and sd = "''01''" and ey = "''2024''" and em = "''06''" and ed = "''01''"
        and sh = "''07''" and smin = "''58''" and eh = "''09''" and emin = "''00''"
        and start = 1717200000000 and end_d = 1717200000000 and startT = 1717228680000 and endT = 1717232400000 and today = 1717200000000]
    by (intro r) (simp_all add: utc_calendar_eval civil_19875)
  have 2: "validateEventTimes (utc_host 1717228740000) ''2024-06-02'' ''2024-06-01'' ''10:00'' ''11:00''
     = \<lparr> eventIsValid = False, errors = [''End date cannot be before start date''] \<rparr>"
    using event_time_checks_accumulate [where h = "utc_host 1717228740000"
        and startDate = "''2024-06-02''" and endDate = "''2024-06-01''" and startTime = "''10:00''" and endTime = "''11:00''"
        and sy = "''2024''" and sm = "''06''" and sd = "''02''" and ey = "''2024''" and em = "''06''" and ed = "''01''"
        and sh = "''10''" and smin = "''00''" and eh = "''11''" and emin = "''00''"
        and start = 1717286400000 and end_d = 1717200000000 and startT = 1717322400000 and endT = 1717239600000 and today = 1717200000000]
    by (intro r) (simp_all add: utc_calendar_eval civil_19875)
  have 3: "validateEventTimes (utc_host 1717228740000) ''2024-06-02'' ''2024-06-02'' ''10:00'' ''09:00''
     = \<lparr> eventIsValid = False, errors = [''End time cannot be before start time on the same day''] \<rparr>"
    using event_time_checks_accumulate [where h = "utc_host 1717228740000"
        and startDate = "''2024-06-02''" and endDate = "''2024-06-02''" and startTime = "''10:00''" and endTime = "''09:00''"
        and sy = "''2024''" and sm = "''06''" and sd = "''02''" and ey = "''2024''" and em = "''06''" and ed = "''02''"
        and sh = "''10''" and smin = "''00''" and eh = "''09''" and emin = "''00''"
        and start = 1717286400000 and end_d = 1717286400000 and startT = 1717322400000 and endT = 1717318800000 and today = 1717200000000]
    by (intro r) (simp_all add: utc_calendar_eval civil_19875)
  have 4: "validateEventTimes (utc_host 1717228740000) ''2024-06-02'' ''2024-06-03'' ''10:00'' ''09:00''
     = \<lparr> eventIsValid = True, errors = [] \<rparr>"
    using event_time_checks_accumulate [where h = "utc_host 1717228740000"
        and startDate = "''2024-06-02''" and endDate = "''2024-06-03''" and startTime = "''10:00''" and endTime = "''09:00''"
        and sy = "''2024''" and sm = "''06''" and sd = "''02''" and ey = "''2024''" and em = "''06''" and ed = "''03''"
        and sh = "''10''" and smin = "''00''" and eh = "''09''" and emin = "''00''"
        and start = 1717286400000 and end_d = 1717372800000 and startT = 1717322400000 and endT = 1717405200000 and today = 1717200000000]
    by (intro r) (simp_all add: utc_calendar_eval civil_19875)
  from 1 2 3 4 show ?thesis by blast
qed

end
